theory Spec2Isabelle
  imports Main "HOL-Library.Monad_Syntax" "HOL-Library.AList"
begin

section \<open>Values, errors and the declared models\<close>

text \<open>
  The program (\<^verbatim>\<open>main.py\<close>) is a FastAPI service over a table of processed agent
  data and a module-level dictionary of WebSocket subscriptions. Floating-point fields are
  only stored and copied, never computed with, so their type is left as the parameter
  \<open>'f\<close>. A \<^verbatim>\<open>datetime\<close> is a point in time, an integer here. Python's dynamically
  typed values (what \<^verbatim>\<open>.dict()\<close> returns, what keyword arguments carry, what
  \<^verbatim>\<open>json.dumps\<close> receives) are the type \<open>pyval\<close>; a dictionary keeps its insertion
  order and is an association list.
\<close>

type_synonym datetime = int

type_synonym ws = nat

datatype 'f pyval =
    PInt int
  | PFloat 'f
  | PStr string
  | PDatetime datetime
  | PDict "(string \<times> 'f pyval) list"

text \<open>
  The exceptions the handlers can end with. \<open>ValidationError\<close> is pydantic's and lists
  the offending fields; \<open>RequestValidationError\<close> is FastAPI's rejection of a request
  body (status 422); \<open>HTTPException\<close> carries its status code; \<open>ArgumentError\<close> is
  what \<^verbatim>\<open>session.query\<close> raises for a class that is not mapped;
  \<open>SQLAlchemyError\<close> stands for any other exception of the session; \<open>SendError\<close> for
  any exception of \<^verbatim>\<open>websocket.send_text\<close> on the given connection. An exception
  that leaves a handler is answered with status 500, except \<open>HTTPException\<close> and
  \<open>RequestValidationError\<close>.
\<close>

datatype error =
    TypeError
  | ValueError
  | ValidationError "string list"
  | RequestValidationError
  | HTTPException nat
  | ArgumentError
  | SQLAlchemyError
  | SendError ws

record 'f ProcessedAgentDataInDB =
  id_db :: int
  road_state :: string
  user_id :: int
  x :: 'f
  y :: 'f
  z :: 'f
  latitude :: 'f
  longitude :: 'f
  timestamp :: datetime

record 'f AccelerometerData =
  x :: 'f
  y :: 'f
  z :: 'f

record 'f GpsData =
  latitude :: 'f
  longitude :: 'f

record 'f AgentData =
  user_id :: int
  accelerometer :: "'f AccelerometerData"
  gps :: "'f GpsData"
  timestamp :: datetime

record 'f ProcessedAgentData =
  road_state :: string
  agent_data :: "'f AgentData"

subsection \<open>\<^verbatim>\<open>.dict()\<close> of the models\<close>

definition dict_ProcessedAgentDataInDB ::
  "'f ProcessedAgentDataInDB \<Rightarrow> (string \<times> 'f pyval) list" where
  "dict_ProcessedAgentDataInDB r =
     [(''id'', PInt (id_db r)),
      (''road_state'', PStr (ProcessedAgentDataInDB.road_state r)),
      (''user_id'', PInt (ProcessedAgentDataInDB.user_id r)),
      (''x'', PFloat (ProcessedAgentDataInDB.x r)),
      (''y'', PFloat (ProcessedAgentDataInDB.y r)),
      (''z'', PFloat (ProcessedAgentDataInDB.z r)),
      (''latitude'', PFloat (ProcessedAgentDataInDB.latitude r)),
      (''longitude'', PFloat (ProcessedAgentDataInDB.longitude r)),
      (''timestamp'', PDatetime (ProcessedAgentDataInDB.timestamp r))]"

definition dict_AccelerometerData ::
  "'f AccelerometerData \<Rightarrow> (string \<times> 'f pyval) list" where
  "dict_AccelerometerData a =
     [(''x'', PFloat (AccelerometerData.x a)),
      (''y'', PFloat (AccelerometerData.y a)),
      (''z'', PFloat (AccelerometerData.z a))]"

definition dict_GpsData :: "'f GpsData \<Rightarrow> (string \<times> 'f pyval) list" where
  "dict_GpsData g =
     [(''latitude'', PFloat (GpsData.latitude g)),
      (''longitude'', PFloat (GpsData.longitude g))]"

definition dict_AgentData :: "'f AgentData \<Rightarrow> (string \<times> 'f pyval) list" where
  "dict_AgentData a =
     [(''user_id'', PInt (AgentData.user_id a)),
      (''accelerometer'', PDict (dict_AccelerometerData (accelerometer a))),
      (''gps'', PDict (dict_GpsData (gps a))),
      (''timestamp'', PDatetime (AgentData.timestamp a))]"

definition dict_ProcessedAgentData ::
  "'f ProcessedAgentData \<Rightarrow> (string \<times> 'f pyval) list" where
  "dict_ProcessedAgentData d =
     [(''road_state'', PStr (ProcessedAgentData.road_state d)),
      (''agent_data'', PDict (dict_AgentData (agent_data d)))]"

subsection \<open>Constructing a \<^verbatim>\<open>ProcessedAgentDataInDB\<close>\<close>

text \<open>
  A pydantic model is constructed from keyword arguments. Every declared field is
  required (none has a default); a keyword that names no field is ignored. A field that
  is missing, or whose value is not of the declared type, makes the constructor raise
  \<open>ValidationError\<close> with the offending fields in declaration order. (Pydantic's
  coercions between types, such as an integer given for a float field, are not modelled:
  the only call site never supplies such a field.)
\<close>

fun get_int :: "'f pyval option \<Rightarrow> int option" where
  "get_int (Some (PInt i)) = Some i"
| "get_int _ = None"

fun get_float :: "'f pyval option \<Rightarrow> 'f option" where
  "get_float (Some (PFloat v)) = Some v"
| "get_float _ = None"

fun get_str :: "'f pyval option \<Rightarrow> string option" where
  "get_str (Some (PStr s)) = Some s"
| "get_str _ = None"

fun get_datetime :: "'f pyval option \<Rightarrow> datetime option" where
  "get_datetime (Some (PDatetime d)) = Some d"
| "get_datetime _ = None"

definition InDB_offending :: "(string \<times> 'f pyval) list \<Rightarrow> string list" where
  "InDB_offending kwargs =
     (if get_int (map_of kwargs ''id'') = None then [''id''] else []) @
     (if get_str (map_of kwargs ''road_state'') = None then [''road_state''] else []) @
     (if get_int (map_of kwargs ''user_id'') = None then [''user_id''] else []) @
     (if get_float (map_of kwargs ''x'') = None then [''x''] else []) @
     (if get_float (map_of kwargs ''y'') = None then [''y''] else []) @
     (if get_float (map_of kwargs ''z'') = None then [''z''] else []) @
     (if get_float (map_of kwargs ''latitude'') = None then [''latitude''] else []) @
     (if get_float (map_of kwargs ''longitude'') = None then [''longitude''] else []) @
     (if get_datetime (map_of kwargs ''timestamp'') = None then [''timestamp''] else [])"

definition InDB_build ::
  "(string \<times> 'f pyval) list \<Rightarrow> 'f ProcessedAgentDataInDB option" where
  "InDB_build kwargs =
     do {
       i \<leftarrow> get_int (map_of kwargs ''id'');
       r \<leftarrow> get_str (map_of kwargs ''road_state'');
       u \<leftarrow> get_int (map_of kwargs ''user_id'');
       vx \<leftarrow> get_float (map_of kwargs ''x'');
       vy \<leftarrow> get_float (map_of kwargs ''y'');
       vz \<leftarrow> get_float (map_of kwargs ''z'');
       la \<leftarrow> get_float (map_of kwargs ''latitude'');
       lo \<leftarrow> get_float (map_of kwargs ''longitude'');
       t \<leftarrow> get_datetime (map_of kwargs ''timestamp'');
       Some \<lparr>id_db = i, road_state = r, user_id = u, x = vx, y = vy, z = vz,
             latitude = la, longitude = lo, timestamp = t\<rparr>
     }"

definition ProcessedAgentDataInDB_init ::
  "(string \<times> 'f pyval) list \<Rightarrow> error + 'f ProcessedAgentDataInDB" where
  "ProcessedAgentDataInDB_init kwargs =
     (case InDB_build kwargs of
        Some r \<Rightarrow> Inr r
      | None \<Rightarrow> Inl (ValidationError (InDB_offending kwargs)))"

section \<open>The state of the service and its environment\<close>

text \<open>
  The state holds the rows of the table \<^verbatim>\<open>processed_agent_data\<close> and the
  module-level dictionary \<^verbatim>\<open>subscriptions\<close>, which maps an agent to its set of
  connections; a set is the list of its members in the order an iteration visits them.
  No code of the program adds a connection to a set or removes one, so a set does not
  change while a handler runs. \<open>log\<close> is a ghost field: it records, in order, every
  commit of a new row and every message handed to a connection.
\<close>

datatype 'f event =
    Commit "'f ProcessedAgentDataInDB"
  | Send ws string

record 'f state =
  table :: "'f ProcessedAgentDataInDB list"
  subscriptions :: "int \<rightharpoonup> ws list"
  log :: "'f event list"

text \<open>
  What the handlers cannot decide themselves: whether entering the session, adding to it
  and committing succeed, whether a send to a connection succeeds, the clock, and which
  strings \<^verbatim>\<open>datetime.fromisoformat\<close> parses.
\<close>

record env =
  session_ok :: bool
  add_ok :: bool
  commit_ok :: bool
  send_ok :: "ws \<Rightarrow> bool"
  utcnow :: datetime
  fromisoformat :: "string \<Rightarrow> datetime option"

text \<open>
  The library calls whose behaviour decides what the handlers can do are parameters of
  the handlers: the constructor pydantic generates for \<^verbatim>\<open>ProcessedAgentDataInDB\<close>,
  \<^verbatim>\<open>json.dumps\<close>, and \<^verbatim>\<open>session.query(ProcessedAgentDataInDB)\<close>, which
  is given the rows of the table and yields them as instances, or raises.
  \<open>python_lib\<close> below supplies the behaviour they have in Python.
\<close>

record 'f lib =
  model_init :: "(string \<times> 'f pyval) list \<Rightarrow> error + 'f ProcessedAgentDataInDB"
  dumps :: "'f pyval \<Rightarrow> error + string"
  session_query :: "'f ProcessedAgentDataInDB list \<Rightarrow> error + 'f ProcessedAgentDataInDB list"

subsection \<open>\<^verbatim>\<open>json.dumps\<close>\<close>

text \<open>
  \<^verbatim>\<open>json.dumps(obj, default=None)\<close> with its other arguments at their defaults:
  items separated by a comma and a space, keys from values by a colon and a space. A
  value that is not JSON serializable, which a \<^verbatim>\<open>datetime\<close> is, goes to
  \<^verbatim>\<open>default\<close> when one is given (here a function to a string, such as
  \<^verbatim>\<open>str\<close>), and raises \<open>TypeError\<close> when none is. How a float and a string are
  written (\<^verbatim>\<open>float.__repr__\<close>, and the quoting and escaping of
  \<^verbatim>\<open>encode_basestring_ascii\<close>) is left to two parameters.
\<close>

record 'f json_encoder =
  floatstr :: "'f \<Rightarrow> string"
  encode_basestring_ascii :: "string \<Rightarrow> string"

fun digits :: "nat \<Rightarrow> string" where
  "digits n =
     (if n < 10 then [''0123456789'' ! n]
      else digits (n div 10) @ [''0123456789'' ! (n mod 10)])"

declare digits.simps [simp del]

definition int_repr :: "int \<Rightarrow> string" where
  "int_repr i = (if i < 0 then CHR ''-'' # digits (nat (- i)) else digits (nat i))"

fun join :: "string \<Rightarrow> string list \<Rightarrow> string" where
  "join sep [] = []"
| "join sep [s] = s"
| "join sep (s # t # ss) = s @ sep @ join sep (t # ss)"

fun json_dumps ::
    "'f json_encoder \<Rightarrow> (datetime \<Rightarrow> string) option \<Rightarrow> 'f pyval \<Rightarrow> error + string"
  and json_items ::
    "'f json_encoder \<Rightarrow> (datetime \<Rightarrow> string) option \<Rightarrow> (string \<times> 'f pyval) list
       \<Rightarrow> error + string list"
  where
  "json_dumps enc dflt (PInt i) = Inr (int_repr i)"
| "json_dumps enc dflt (PFloat v) = Inr (floatstr enc v)"
| "json_dumps enc dflt (PStr s) = Inr (encode_basestring_ascii enc s)"
| "json_dumps enc dflt (PDatetime d) =
     (case dflt of
        None \<Rightarrow> Inl TypeError
      | Some f \<Rightarrow> Inr (encode_basestring_ascii enc (f d)))"
| "json_dumps enc dflt (PDict kvs) =
     (case json_items enc dflt kvs of
        Inl err \<Rightarrow> Inl err
      | Inr ss \<Rightarrow> Inr (''{'' @ join '', '' ss @ ''}''))"
| "json_items enc dflt [] = Inr []"
| "json_items enc dflt ((k, v) # kvs) =
     (case json_dumps enc dflt v of
        Inl err \<Rightarrow> Inl err
      | Inr s \<Rightarrow>
          (case json_items enc dflt kvs of
             Inl err \<Rightarrow> Inl err
           | Inr ss \<Rightarrow> Inr ((encode_basestring_ascii enc k @ '': '' @ s) # ss)))"

text \<open>
  The program calls \<^verbatim>\<open>ProcessedAgentDataInDB(...)\<close> and
  \<^verbatim>\<open>json.dumps(db_data.dict())\<close>, the latter without \<^verbatim>\<open>default\<close>. The
  class it gives to \<^verbatim>\<open>session.query\<close> is the pydantic model, which is not a
  mapped class, so the call raises \<open>ArgumentError\<close> whatever the table holds.
\<close>

definition python_lib :: "'f json_encoder \<Rightarrow> 'f lib" where
  "python_lib enc =
     \<lparr>model_init = ProcessedAgentDataInDB_init,
      dumps = json_dumps enc None,
      session_query = (\<lambda>rows. Inl ArgumentError)\<rparr>"

section \<open>The ingest handler\<close>

subsection \<open>Sending to the subscribers (lines 115 and 116)\<close>

text \<open>
  \<^verbatim>\<open>for websocket in subscriptions[user_id]: await websocket.send_text(message)\<close>.
  The members of the set are visited in its iteration order. A send that raises ends the
  loop and the handler, since nothing catches it.
\<close>

fun send_loop ::
  "env \<Rightarrow> string \<Rightarrow> ws list \<Rightarrow> 'f state \<Rightarrow> (error + unit) \<times> 'f state" where
  "send_loop e message [] st = (Inr (), st)"
| "send_loop e message (websocket # rest) st =
     (if send_ok e websocket
      then send_loop e message rest (st\<lparr>log := log st @ [Send websocket message]\<rparr>)
      else (Inl (SendError websocket), st))"

subsection \<open>The dispatch (lines 113 to 116)\<close>

text \<open>
  The key looked up is the request's \<^verbatim>\<open>data.agent_data.user_id\<close>; the message is
  the serialization of the new row's \<^verbatim>\<open>.dict()\<close>, computed once, and only when the
  agent has an entry in \<^verbatim>\<open>subscriptions\<close>.
\<close>

definition dispatch ::
  "'f lib \<Rightarrow> env \<Rightarrow> int \<Rightarrow> 'f ProcessedAgentDataInDB \<Rightarrow> 'f state
     \<Rightarrow> (error + unit) \<times> 'f state" where
  "dispatch L e uid db_data st =
     (case subscriptions st uid of
        None \<Rightarrow> (Inr (), st)
      | Some websockets \<Rightarrow>
          (case dumps L (PDict (dict_ProcessedAgentDataInDB db_data)) of
             Inl err \<Rightarrow> (Inl err, st)
           | Inr message \<Rightarrow> send_loop e message websockets st))"

subsection \<open>\<^verbatim>\<open>create_processed_agent_data\<close> (lines 105 to 117)\<close>

text \<open>
  Entering the session, constructing the row from \<^verbatim>\<open>**data.dict()\<close> and
  \<^verbatim>\<open>timestamp=datetime.utcnow()\<close>, \<^verbatim>\<open>session.add\<close>, \<^verbatim>\<open>session.commit\<close>, then
  the dispatch. Every exception leaves the handler at once; the commit is the only
  write to the table.
\<close>

definition create_processed_agent_data ::
  "'f lib \<Rightarrow> env \<Rightarrow> 'f ProcessedAgentData \<Rightarrow> 'f state
     \<Rightarrow> (error + 'f ProcessedAgentDataInDB) \<times> 'f state" where
  "create_processed_agent_data L e data st =
     (if \<not> session_ok e then (Inl TypeError, st)
      else
        case model_init L (dict_ProcessedAgentData data @ [(''timestamp'', PDatetime (utcnow e))]) of
          Inl err \<Rightarrow> (Inl err, st)
        | Inr db_data \<Rightarrow>
            if \<not> add_ok e then (Inl SQLAlchemyError, st)
            else if \<not> commit_ok e then (Inl SQLAlchemyError, st)
            else
              let st1 = st\<lparr>table := table st @ [db_data], log := log st @ [Commit db_data]\<rparr>
              in (case dispatch L e (AgentData.user_id (agent_data data)) db_data st1 of
                    (Inl err, st2) \<Rightarrow> (Inl err, st2)
                  | (Inr u, st2) \<Rightarrow> (Inr db_data, st2)))"

section \<open>Validation of the request body\<close>

text \<open>
  The source declares a validator for \<^verbatim>\<open>timestamp\<close>: a \<^verbatim>\<open>datetime\<close>
  passes; anything else goes to \<^verbatim>\<open>datetime.fromisoformat\<close>, whose \<open>TypeError\<close>
  (not a string) and \<open>ValueError\<close> (not ISO 8601) are both turned into \<open>ValueError\<close>.
\<close>

definition check_timestamp :: "env \<Rightarrow> 'f pyval \<Rightarrow> error + datetime" where
  "check_timestamp e value =
     (case value of
        PDatetime d \<Rightarrow> Inr d
      | PStr s \<Rightarrow> (case fromisoformat e s of Some d \<Rightarrow> Inr d | None \<Rightarrow> Inl ValueError)
      | _ \<Rightarrow> Inl ValueError)"

text \<open>
  The declaration stacks \<^verbatim>\<open>@classmethod\<close> above \<^verbatim>\<open>@field_validator\<close> (lines
  82 and 83), and pydantic only registers a validator it finds as its own descriptor in
  the class, so \<open>check_timestamp\<close> is never called: the field is validated as any
  \<^verbatim>\<open>datetime\<close> field is.

  FastAPI builds the handler's argument \<^verbatim>\<open>data: ProcessedAgentData\<close> from the
  request body before it calls the handler, and answers 422 without calling it when the
  body does not validate. The models require each of their fields, a nested model is
  given as a dictionary, and a key that names no field is ignored. What pydantic makes
  of one raw value for a field of type \<^verbatim>\<open>int\<close>, \<^verbatim>\<open>float\<close>, \<^verbatim>\<open>str\<close> or
  \<^verbatim>\<open>datetime\<close>, its coercions included, is a parameter.
\<close>

record 'f validators =
  validate_int :: "'f pyval \<Rightarrow> int option"
  validate_float :: "'f pyval \<Rightarrow> 'f option"
  validate_str :: "'f pyval \<Rightarrow> string option"
  validate_datetime :: "'f pyval \<Rightarrow> datetime option"

fun get_dict :: "'f pyval option \<Rightarrow> (string \<times> 'f pyval) list option" where
  "get_dict (Some (PDict kvs)) = Some kvs"
| "get_dict _ = None"

definition AccelerometerData_init ::
  "'f validators \<Rightarrow> (string \<times> 'f pyval) list \<Rightarrow> 'f AccelerometerData option" where
  "AccelerometerData_init V kwargs =
     do {
       vx \<leftarrow> Option.bind (map_of kwargs ''x'') (validate_float V);
       vy \<leftarrow> Option.bind (map_of kwargs ''y'') (validate_float V);
       vz \<leftarrow> Option.bind (map_of kwargs ''z'') (validate_float V);
       Some \<lparr>AccelerometerData.x = vx, y = vy, z = vz\<rparr>
     }"

definition GpsData_init ::
  "'f validators \<Rightarrow> (string \<times> 'f pyval) list \<Rightarrow> 'f GpsData option" where
  "GpsData_init V kwargs =
     do {
       la \<leftarrow> Option.bind (map_of kwargs ''latitude'') (validate_float V);
       lo \<leftarrow> Option.bind (map_of kwargs ''longitude'') (validate_float V);
       Some \<lparr>GpsData.latitude = la, longitude = lo\<rparr>
     }"

definition AgentData_init ::
  "'f validators \<Rightarrow> (string \<times> 'f pyval) list \<Rightarrow> 'f AgentData option" where
  "AgentData_init V kwargs =
     do {
       u \<leftarrow> Option.bind (map_of kwargs ''user_id'') (validate_int V);
       ad \<leftarrow> get_dict (map_of kwargs ''accelerometer'');
       acc \<leftarrow> AccelerometerData_init V ad;
       gd \<leftarrow> get_dict (map_of kwargs ''gps'');
       g \<leftarrow> GpsData_init V gd;
       t \<leftarrow> Option.bind (map_of kwargs ''timestamp'') (validate_datetime V);
       Some \<lparr>AgentData.user_id = u, accelerometer = acc, gps = g, timestamp = t\<rparr>
     }"

definition ProcessedAgentData_init ::
  "'f validators \<Rightarrow> (string \<times> 'f pyval) list \<Rightarrow> 'f ProcessedAgentData option" where
  "ProcessedAgentData_init V kwargs =
     do {
       r \<leftarrow> Option.bind (map_of kwargs ''road_state'') (validate_str V);
       ad \<leftarrow> get_dict (map_of kwargs ''agent_data'');
       a \<leftarrow> AgentData_init V ad;
       Some \<lparr>ProcessedAgentData.road_state = r, agent_data = a\<rparr>
     }"

text \<open>The route \<^verbatim>\<open>POST /processed_agent_data/\<close>: validation, then the handler.\<close>

definition post_processed_agent_data ::
  "'f lib \<Rightarrow> 'f validators \<Rightarrow> env \<Rightarrow> 'f pyval \<Rightarrow> 'f state
     \<Rightarrow> (error + 'f ProcessedAgentDataInDB) \<times> 'f state" where
  "post_processed_agent_data L V e body st =
     (case Option.bind (get_dict (Some body)) (ProcessedAgentData_init V) of
        None \<Rightarrow> (Inl RequestValidationError, st)
      | Some data \<Rightarrow> create_processed_agent_data L e data st)"

section \<open>The handlers that query the table\<close>

text \<open>
  Each of them begins with \<^verbatim>\<open>session.query(ProcessedAgentDataInDB)\<close>; an exception
  there leaves the handler. On what the query yields,
  \<^verbatim>\<open>.filter(id == i).first()\<close> is the first row with the given id, or
  \<^verbatim>\<open>None\<close>; a row is truthy, so \<^verbatim>\<open>if not data\<close> tests for \<^verbatim>\<open>None\<close>.
\<close>

definition read_processed_agent_data ::
  "'f lib \<Rightarrow> int \<Rightarrow> 'f state \<Rightarrow> (error + 'f ProcessedAgentDataInDB) \<times> 'f state" where
  "read_processed_agent_data L processed_agent_data_id st =
     (case session_query L (table st) of
        Inl err \<Rightarrow> (Inl err, st)
      | Inr rows \<Rightarrow>
          (case find (\<lambda>r. id_db r = processed_agent_data_id) rows of
             None \<Rightarrow> (Inl (HTTPException 404), st)
           | Some data \<Rightarrow> (Inr data, st)))"

definition list_processed_agent_data ::
  "'f lib \<Rightarrow> 'f state \<Rightarrow> (error + 'f ProcessedAgentDataInDB list) \<times> 'f state" where
  "list_processed_agent_data L st =
     (case session_query L (table st) of
        Inl err \<Rightarrow> (Inl err, st)
      | Inr rows \<Rightarrow> (Inr rows, st))"

text \<open>
  \<^verbatim>\<open>setattr\<close> on a pydantic model, whose fields are held in the instance's
  dictionary: a name that is not a field of the model raises \<open>ValueError\<close> (``object has
  no field''); a field is assigned whatever the value is, without validation.
\<close>

definition InDB_fields :: "string list" where
  "InDB_fields =
     [''id'', ''road_state'', ''user_id'', ''x'', ''y'', ''z'', ''latitude'', ''longitude'',
      ''timestamp'']"

definition setattr_InDB ::
  "(string \<times> 'f pyval) list \<Rightarrow> string \<Rightarrow> 'f pyval \<Rightarrow> error + (string \<times> 'f pyval) list" where
  "setattr_InDB obj name v =
     (if name \<in> set InDB_fields then Inr (AList.update name v obj) else Inl ValueError)"

text \<open>\<^verbatim>\<open>for field, value in data.dict().items(): setattr(db_data, field, value)\<close>\<close>

fun setattr_items ::
  "(string \<times> 'f pyval) list \<Rightarrow> (string \<times> 'f pyval) list
     \<Rightarrow> error + (string \<times> 'f pyval) list" where
  "setattr_items obj [] = Inr obj"
| "setattr_items obj ((field, value) # items) =
     (case setattr_InDB obj field value of
        Inl err \<Rightarrow> Inl err
      | Inr obj' \<Rightarrow> setattr_items obj' items)"

fun replace_first :: "('a \<Rightarrow> bool) \<Rightarrow> 'a \<Rightarrow> 'a list \<Rightarrow> 'a list" where
  "replace_first P v [] = []"
| "replace_first P v (r # rs) = (if P r then v # rs else r # replace_first P v rs)"

fun delete_first :: "('a \<Rightarrow> bool) \<Rightarrow> 'a list \<Rightarrow> 'a list" where
  "delete_first P [] = []"
| "delete_first P (r # rs) = (if P r then rs else r # delete_first P rs)"

text \<open>
  The update handler. After the loop the commit writes the instance back; an instance
  whose fields no longer hold values of the columns' types cannot be written. (The loop
  never gets that far: see \<open>setattr_items_dict\<close> below.)
\<close>

definition update_processed_agent_data ::
  "'f lib \<Rightarrow> env \<Rightarrow> int \<Rightarrow> 'f ProcessedAgentData \<Rightarrow> 'f state
     \<Rightarrow> (error + 'f ProcessedAgentDataInDB) \<times> 'f state" where
  "update_processed_agent_data L e processed_agent_data_id data st =
     (case session_query L (table st) of
        Inl err \<Rightarrow> (Inl err, st)
      | Inr rows \<Rightarrow>
          (case find (\<lambda>r. id_db r = processed_agent_data_id) rows of
             None \<Rightarrow> (Inl (HTTPException 404), st)
           | Some db_data \<Rightarrow>
               (case setattr_items (dict_ProcessedAgentDataInDB db_data)
                       (dict_ProcessedAgentData data) of
                  Inl err \<Rightarrow> (Inl err, st)
                | Inr obj \<Rightarrow>
                    (case InDB_build obj of
                       None \<Rightarrow> (Inl SQLAlchemyError, st)
                     | Some db_data' \<Rightarrow>
                         if \<not> commit_ok e then (Inl SQLAlchemyError, st)
                         else (Inr db_data',
                               st\<lparr>table := replace_first
                                    (\<lambda>r. id_db r = processed_agent_data_id)
                                    db_data' (table st)\<rparr>)))))"

definition delete_processed_agent_data ::
  "'f lib \<Rightarrow> env \<Rightarrow> int \<Rightarrow> 'f state \<Rightarrow> (error + 'f ProcessedAgentDataInDB) \<times> 'f state" where
  "delete_processed_agent_data L e processed_agent_data_id st =
     (case session_query L (table st) of
        Inl err \<Rightarrow> (Inl err, st)
      | Inr rows \<Rightarrow>
          (case find (\<lambda>r. id_db r = processed_agent_data_id) rows of
             None \<Rightarrow> (Inl (HTTPException 404), st)
           | Some data \<Rightarrow>
               if \<not> commit_ok e then (Inl SQLAlchemyError, st)
               else (Inr data,
                     st\<lparr>table := delete_first (\<lambda>r. id_db r = processed_agent_data_id)
                                    (table st)\<rparr>)))"

section \<open>The service as a transition system\<close>

text \<open>
  The routes of the application are the five above; there is no WebSocket route. A step
  serves one request, under some environment. The service starts with the rows the
  database holds and with \<^verbatim>\<open>subscriptions = {}\<close>.
\<close>

datatype 'f request =
    Post "'f pyval"
  | Get int
  | GetAll
  | Put int "'f ProcessedAgentData"
  | Delete int

fun serve :: "'f lib \<Rightarrow> 'f validators \<Rightarrow> env \<Rightarrow> 'f request \<Rightarrow> 'f state \<Rightarrow> 'f state" where
  "serve L V e (Post body) st = snd (post_processed_agent_data L V e body st)"
| "serve L V e (Get i) st = snd (read_processed_agent_data L i st)"
| "serve L V e GetAll st = snd (list_processed_agent_data L st)"
| "serve L V e (Put i data) st = snd (update_processed_agent_data L e i data st)"
| "serve L V e (Delete i) st = snd (delete_processed_agent_data L e i st)"

definition initial :: "'f ProcessedAgentDataInDB list \<Rightarrow> 'f state" where
  "initial rows = \<lparr>table = rows, subscriptions = Map.empty, log = []\<rparr>"

inductive reachable :: "'f lib \<Rightarrow> 'f state \<Rightarrow> bool" for L :: "'f lib" where
  start: "reachable L (initial rows)"
| step: "reachable L st \<Longrightarrow> reachable L (serve L V e req st)"

text \<open>The messages handed to connections, in order, as the log records them.\<close>

fun sends :: "'f event list \<Rightarrow> (ws \<times> string) list" where
  "sends [] = []"
| "sends (Commit r # es) = sends es"
| "sends (Send w m # es) = (w, m) # sends es"

section \<open>Concrete inputs\<close>

text \<open>
  The inputs at which the theorems below are instantiated. Floats are integers there.
  The request is the one of the specification's scenario: agent 42, road state
  ``pothole'', accelerometer (1, 2, 3), gps (50, 30), with a client timestamp of 7; the
  server's clock reads 1000.
\<close>

definition quoted :: "string \<Rightarrow> string" where
  "quoted s = CHR 0x22 # s @ [CHR 0x22]"

definition example_encoder :: "int json_encoder" where
  "example_encoder = \<lparr>floatstr = int_repr, encode_basestring_ascii = quoted\<rparr>"

definition example_data :: "int ProcessedAgentData" where
  "example_data =
     \<lparr>ProcessedAgentData.road_state = ''pothole'',
      agent_data =
        \<lparr>AgentData.user_id = 42,
         accelerometer = \<lparr>AccelerometerData.x = 1, y = 2, z = 3\<rparr>,
         gps = \<lparr>GpsData.latitude = 50, longitude = 30\<rparr>,
         timestamp = 7\<rparr>\<rparr>"

definition example_row :: "int ProcessedAgentDataInDB" where
  "example_row =
     \<lparr>id_db = 1, road_state = ''pothole'', user_id = 42, x = 1, y = 2, z = 3,
      latitude = 50, longitude = 30, timestamp = 1000\<rparr>"

definition example_fromisoformat :: "string \<Rightarrow> datetime option" where
  "example_fromisoformat s = (if s = ''1970-01-01T00:00:07'' then Some 7 else None)"

definition always :: "ws \<Rightarrow> bool" where
  "always w = True"

definition example_env :: env where
  "example_env =
     \<lparr>session_ok = True, add_ok = True, commit_ok = True, send_ok = always,
      utcnow = 1000, fromisoformat = example_fromisoformat\<rparr>"

text \<open>
  Pydantic's validation of single values, on the values the example bodies hold: an
  integer is taken for an \<^verbatim>\<open>int\<close> field and, coerced, for a \<^verbatim>\<open>float\<close> field;
  a \<^verbatim>\<open>datetime\<close> field takes a number as a Unix time and a string that its parser
  reads.
\<close>

definition example_validate_float :: "int pyval \<Rightarrow> int option" where
  "example_validate_float v = (case v of PFloat w \<Rightarrow> Some w | PInt n \<Rightarrow> Some n | _ \<Rightarrow> None)"

definition example_validate_datetime :: "int pyval \<Rightarrow> datetime option" where
  "example_validate_datetime v =
     (case v of
        PDatetime d \<Rightarrow> Some d
      | PInt n \<Rightarrow> Some n
      | PStr s \<Rightarrow> example_fromisoformat s
      | _ \<Rightarrow> None)"

definition example_validators :: "int validators" where
  "example_validators =
     \<lparr>validate_int = (\<lambda>v. get_int (Some v)),
      validate_float = example_validate_float,
      validate_str = (\<lambda>v. get_str (Some v)),
      validate_datetime = example_validate_datetime\<rparr>"

text \<open>
  The body of the scenario's request, with the number 7 for its timestamp: not an
  ISO 8601 string.
\<close>

definition example_body :: "int pyval" where
  "example_body =
     PDict [(''road_state'', PStr ''pothole''),
            (''agent_data'',
               PDict [(''user_id'', PInt 42),
                      (''accelerometer'', PDict [(''x'', PFloat 1), (''y'', PFloat 2), (''z'', PFloat 3)]),
                      (''gps'', PDict [(''latitude'', PFloat 50), (''longitude'', PFloat 30)]),
                      (''timestamp'', PInt 7)])]"

text \<open>
  A state in which agent 42 has the connections 1 and 2 in its set and agent 7 has
  connection 3, with an empty table.
\<close>

definition example_state :: "int state" where
  "example_state =
     \<lparr>table = [], subscriptions = [42 \<mapsto> [1, 2], 7 \<mapsto> [3]], log = []\<rparr>"

text \<open>
  With the Python library the ingest handler never gets past the constructor. To
  exercise what lies behind it, \<open>accepting_lib\<close> is a library under which the
  constructor and the serialization succeed: its constructor takes the keyword arguments
  the handler passes, that is \<^verbatim>\<open>road_state\<close>, the nested \<^verbatim>\<open>agent_data\<close> and
  \<^verbatim>\<open>timestamp\<close>, and gives the row the id 1; its \<^verbatim>\<open>dumps\<close> is
  \<^verbatim>\<open>json.dumps\<close> with \<^verbatim>\<open>default\<close> set.
\<close>

definition nested_init ::
  "int \<Rightarrow> (string \<times> 'f pyval) list \<Rightarrow> error + 'f ProcessedAgentDataInDB" where
  "nested_init new_id kwargs =
     (case
        do {
          r \<leftarrow> get_str (map_of kwargs ''road_state'');
          ad \<leftarrow> get_dict (map_of kwargs ''agent_data'');
          u \<leftarrow> get_int (map_of ad ''user_id'');
          acc \<leftarrow> get_dict (map_of ad ''accelerometer'');
          vx \<leftarrow> get_float (map_of acc ''x'');
          vy \<leftarrow> get_float (map_of acc ''y'');
          vz \<leftarrow> get_float (map_of acc ''z'');
          g \<leftarrow> get_dict (map_of ad ''gps'');
          la \<leftarrow> get_float (map_of g ''latitude'');
          lo \<leftarrow> get_float (map_of g ''longitude'');
          t \<leftarrow> get_datetime (map_of kwargs ''timestamp'');
          Some \<lparr>id_db = new_id, road_state = r, user_id = u, x = vx, y = vy, z = vz,
                latitude = la, longitude = lo, timestamp = t\<rparr>
        }
      of None \<Rightarrow> Inl (ValidationError [])
       | Some row \<Rightarrow> Inr row)"

definition accepting_lib :: "int lib" where
  "accepting_lib =
     \<lparr>model_init = nested_init 1,
      dumps = json_dumps example_encoder (Some int_repr),
      session_query = Inr\<rparr>"

definition example_message :: string where
  "example_message =
     [CHR ''{'', CHR 0x22] @ ''id'' @ [CHR 0x22] @ '': 1, '' @
     [CHR 0x22] @ ''road_state'' @ [CHR 0x22] @ '': '' @ [CHR 0x22] @ ''pothole'' @ [CHR 0x22] @ '', '' @
     [CHR 0x22] @ ''user_id'' @ [CHR 0x22] @ '': 42, '' @
     [CHR 0x22] @ ''x'' @ [CHR 0x22] @ '': 1, '' @
     [CHR 0x22] @ ''y'' @ [CHR 0x22] @ '': 2, '' @
     [CHR 0x22] @ ''z'' @ [CHR 0x22] @ '': 3, '' @
     [CHR 0x22] @ ''latitude'' @ [CHR 0x22] @ '': 50, '' @
     [CHR 0x22] @ ''longitude'' @ [CHR 0x22] @ '': 30, '' @
     [CHR 0x22] @ ''timestamp'' @ [CHR 0x22] @ '': '' @ [CHR 0x22] @ ''1000'' @ [CHR 0x22] @ ''}''"

section \<open>Auxiliary facts\<close>

subsection \<open>The loop over the subscribers\<close>

text \<open>
  The loop touches neither the table nor the dictionary. It hands the message to the
  members of the set in order, up to the first one whose send fails, and ends in that
  member's error.
\<close>

lemma send_loop_table: "table (snd (send_loop e m wss st)) = table st"
  by (induction wss arbitrary: st) simp_all

lemma send_loop_subscriptions: "subscriptions (snd (send_loop e m wss st)) = subscriptions st"
  by (induction wss arbitrary: st) simp_all

lemma send_loop_log:
  "log (snd (send_loop e m wss st)) =
     log st @ map (\<lambda>w. Send w m) (takeWhile (send_ok e) wss)"
  by (induction wss arbitrary: st) simp_all

lemma send_loop_result:
  "fst (send_loop e m wss st) =
     (case find (\<lambda>w. \<not> send_ok e w) wss of
        None \<Rightarrow> Inr ()
      | Some w \<Rightarrow> Inl (SendError w))"
  by (induction wss arbitrary: st) simp_all

subsection \<open>The dispatch\<close>

lemma sends_append [simp]: "sends (es @ fs) = sends es @ sends fs"
  by (induction es rule: sends.induct) auto

lemma sends_map_Send [simp]: "sends (map (\<lambda>w. Send w m) wss) = map (\<lambda>w. (w, m)) wss"
  by (induction wss) auto

lemma dispatch_table: "table (snd (dispatch L e uid row st)) = table st"
  by (simp add: dispatch_def send_loop_table split: option.splits sum.splits)

lemma dispatch_subscriptions: "subscriptions (snd (dispatch L e uid row st)) = subscriptions st"
  by (simp add: dispatch_def send_loop_subscriptions split: option.splits sum.splits)

lemma dispatch_log:
  "\<exists>message wss. log (snd (dispatch L e uid row st)) = log st @ map (\<lambda>w. Send w message) wss
      \<and> (wss \<noteq> [] \<longrightarrow> dumps L (PDict (dict_ProcessedAgentDataInDB row)) = Inr message)"
proof (cases "subscriptions st uid")
  case None
  then have "log (snd (dispatch L e uid row st)) = log st @ map (\<lambda>w. Send w []) []"
    by (simp add: dispatch_def)
  then show ?thesis by blast
next
  case (Some websockets)
  show ?thesis
  proof (cases "dumps L (PDict (dict_ProcessedAgentDataInDB row))")
    case (Inl err)
    with Some have "log (snd (dispatch L e uid row st)) = log st @ map (\<lambda>w. Send w []) []"
      by (simp add: dispatch_def)
    then show ?thesis by blast
  next
    case (Inr message)
    with Some have
      "log (snd (dispatch L e uid row st)) =
         log st @ map (\<lambda>w. Send w message) (takeWhile (send_ok e) websockets)
       \<and> (takeWhile (send_ok e) websockets \<noteq> [] \<longrightarrow>
            dumps L (PDict (dict_ProcessedAgentDataInDB row)) = Inr message)"
      by (simp add: dispatch_def send_loop_log)
    then show ?thesis by blast
  qed
qed

lemma dispatch_no_entry:
  "subscriptions st uid = None \<Longrightarrow> dispatch L e uid row st = (Inr (), st)"
  by (simp add: dispatch_def)

subsection \<open>The Python library\<close>

text \<open>
  The keyword arguments the handler passes never satisfy the constructor of
  \<^verbatim>\<open>ProcessedAgentDataInDB\<close>, so the ingest handler always ends in an error and
  leaves the state as it was.
\<close>

lemma python_kwargs_rejected:
  "ProcessedAgentDataInDB_init (dict_ProcessedAgentData data @ [(''timestamp'', PDatetime t)]) =
     Inl (ValidationError [''id'', ''user_id'', ''x'', ''y'', ''z'', ''latitude'', ''longitude''])"
  by (simp add: ProcessedAgentDataInDB_init_def InDB_build_def InDB_offending_def
      dict_ProcessedAgentData_def)

lemma create_python_lib:
  "create_processed_agent_data (python_lib enc) e data st =
     (Inl (if session_ok e
           then ValidationError [''id'', ''user_id'', ''x'', ''y'', ''z'', ''latitude'', ''longitude'']
           else TypeError), st)"
  by (simp add: create_processed_agent_data_def python_lib_def python_kwargs_rejected)

subsection \<open>The ingest handler\<close>

text \<open>
  A run of the handler either fails before the commit and leaves the state as it was, or
  commits the row it constructed and then dispatches it.
\<close>

lemma create_cases:
  assumes "create_processed_agent_data L e data st = (res, st')"
  obtains (failed) err where "res = Inl err" "st' = st"
  | (committed) row message wss where
      "session_ok e" "add_ok e" "commit_ok e"
      "model_init L (dict_ProcessedAgentData data @ [(''timestamp'', PDatetime (utcnow e))]) = Inr row"
      "table st' = table st @ [row]"
      "subscriptions st' = subscriptions st"
      "log st' = log st @ Commit row # map (\<lambda>w. Send w message) wss"
      "wss \<noteq> [] \<longrightarrow> dumps L (PDict (dict_ProcessedAgentDataInDB row)) = Inr message"
      "res = Inr row \<or> (\<exists>err. res = Inl err)"
proof (cases "session_ok e")
  case False
  with assms have "res = Inl TypeError" "st' = st"
    by (simp_all add: create_processed_agent_data_def)
  then show ?thesis by (rule failed)
next
  case True
  show ?thesis
  proof (cases "model_init L (dict_ProcessedAgentData data @ [(''timestamp'', PDatetime (utcnow e))])")
    case (Inl err)
    with True assms have "res = Inl err" "st' = st"
      by (simp_all add: create_processed_agent_data_def)
    then show ?thesis by (rule failed)
  next
    case (Inr row)
    show ?thesis
    proof (cases "add_ok e \<and> commit_ok e")
      case False
      with True Inr assms have "res = Inl SQLAlchemyError" "st' = st"
        by (auto simp: create_processed_agent_data_def split: if_splits)
      then show ?thesis by (rule failed)
    next
      case ok: True
      define st1 where "st1 = st\<lparr>table := table st @ [row], log := log st @ [Commit row]\<rparr>"
      define uid where "uid = AgentData.user_id (agent_data data)"
      have run: "(res, st') = (case dispatch L e uid row st1 of
                    (Inl err, st2) \<Rightarrow> (Inl err, st2)
                  | (Inr u, st2) \<Rightarrow> (Inr row, st2))"
        using True Inr ok assms
        by (simp add: create_processed_agent_data_def st1_def uid_def Let_def)
      then have st': "st' = snd (dispatch L e uid row st1)"
        by (auto split: prod.splits sum.splits)
      have res: "res = Inr row \<or> (\<exists>err. res = Inl err)"
        using run by (auto split: prod.splits sum.splits)
      obtain message wss where sent:
        "log st' = log st1 @ map (\<lambda>w. Send w message) wss"
        "wss \<noteq> [] \<longrightarrow> dumps L (PDict (dict_ProcessedAgentDataInDB row)) = Inr message"
        unfolding st' using dispatch_log by blast
      have "table st' = table st @ [row]"
        unfolding st' by (simp add: dispatch_table st1_def)
      moreover have "subscriptions st' = subscriptions st"
        unfolding st' by (simp add: dispatch_subscriptions st1_def)
      moreover have "log st' = log st @ Commit row # map (\<lambda>w. Send w message) wss"
        using sent(1) by (simp add: st1_def)
      ultimately show ?thesis
        using True ok Inr sent(2) res by (intro committed [of row message wss]) simp_all
    qed
  qed
qed

subsection \<open>The handlers that query the table\<close>

text \<open>
  The loop of the update handler always ends in \<open>ValueError\<close>: the second item of
  \<^verbatim>\<open>data.dict()\<close> is \<^verbatim>\<open>agent_data\<close>, which is not a field of the row. Under
  the Python library no handler gets that far: each ends in \<open>ArgumentError\<close> at
  \<^verbatim>\<open>session.query\<close> and leaves the state as it was.
\<close>

lemma setattr_items_dict:
  "setattr_items obj (dict_ProcessedAgentData data) = Inl ValueError"
  by (simp add: dict_ProcessedAgentData_def setattr_InDB_def InDB_fields_def)

lemma python_lib_queries:
  "read_processed_agent_data (python_lib enc) i st = (Inl ArgumentError, st)"
  "list_processed_agent_data (python_lib enc) st = (Inl ArgumentError, st)"
  "update_processed_agent_data (python_lib enc) e i data st = (Inl ArgumentError, st)"
  "delete_processed_agent_data (python_lib enc) e i st = (Inl ArgumentError, st)"
  by (simp_all add: read_processed_agent_data_def list_processed_agent_data_def
      update_processed_agent_data_def delete_processed_agent_data_def python_lib_def)

subsection \<open>What a request can change\<close>

lemma create_subscriptions:
  "subscriptions (snd (create_processed_agent_data L e data st)) = subscriptions st"
proof -
  obtain res st' where run: "create_processed_agent_data L e data st = (res, st')"
    by (cases "create_processed_agent_data L e data st")
  then have "subscriptions st' = subscriptions st"
    by (cases rule: create_cases) simp_all
  with run show ?thesis by simp
qed

lemma create_no_entry:
  assumes "subscriptions st (AgentData.user_id (agent_data data)) = None"
  shows "sends (log (snd (create_processed_agent_data L e data st))) = sends (log st)"
proof -
  have "\<And>row. dispatch L e (AgentData.user_id (agent_data data)) row
            (st\<lparr>table := table st @ [row], log := log st @ [Commit row]\<rparr>) =
          (Inr (), st\<lparr>table := table st @ [row], log := log st @ [Commit row]\<rparr>)"
    using assms by (simp add: dispatch_no_entry)
  then show ?thesis
    by (simp add: create_processed_agent_data_def Let_def split: sum.splits)
qed

lemma serve_subscriptions: "subscriptions (serve L V e req st) = subscriptions st"
proof (cases req)
  case (Post body)
  then show ?thesis
    by (simp add: post_processed_agent_data_def create_subscriptions split: option.splits)
next
  case (Get i)
  then show ?thesis
    by (simp add: read_processed_agent_data_def split: option.splits sum.splits)
next
  case GetAll
  then show ?thesis by (simp add: list_processed_agent_data_def split: sum.splits)
next
  case (Put i data)
  then show ?thesis
    by (simp add: update_processed_agent_data_def split: option.splits sum.splits)
next
  case (Delete i)
  then show ?thesis
    by (simp add: delete_processed_agent_data_def split: option.splits sum.splits)
qed

lemma serve_sends:
  assumes "subscriptions st = Map.empty"
  shows "sends (log (serve L V e req st)) = sends (log st)"
proof (cases req)
  case (Post body)
  then show ?thesis
    using assms by (simp add: post_processed_agent_data_def create_no_entry split: option.splits)
next
  case (Get i)
  then show ?thesis
    by (simp add: read_processed_agent_data_def split: option.splits sum.splits)
next
  case GetAll
  then show ?thesis by (simp add: list_processed_agent_data_def split: sum.splits)
next
  case (Put i data)
  then show ?thesis
    by (simp add: update_processed_agent_data_def split: option.splits sum.splits)
next
  case (Delete i)
  then show ?thesis
    by (simp add: delete_processed_agent_data_def split: option.splits sum.splits)
qed


subsection \<open>The concrete inputs\<close>

lemma example_validated:
  "Option.bind (get_dict (Some example_body)) (ProcessedAgentData_init example_validators) =
     Some example_data"
  by (simp add: example_body_def ProcessedAgentData_init_def AgentData_init_def
      AccelerometerData_init_def GpsData_init_def example_validators_def
      example_validate_float_def example_validate_datetime_def example_data_def)

section \<open>The claims\<close>

text \<open>
  C1 (commit before notify). A run of the ingest handler either fails before the commit,
  and then changes nothing, or appends to the log the commit of one row followed only by
  messages to connections, each message the serialization of that row. So the commit
  precedes every delivery, and when \<^verbatim>\<open>session.add\<close> or \<^verbatim>\<open>session.commit\<close>
  fails nothing is delivered. This holds whatever the constructor and the serializer do.
\<close>

theorem commit_before_notify:
  assumes "create_processed_agent_data L e data st = (res, st')"
  shows "(st' = st \<and> (\<exists>err. res = Inl err)) \<or>
         (\<exists>row message wss.
            add_ok e \<and> commit_ok e \<and>
            table st' = table st @ [row] \<and>
            log st' = log st @ Commit row # map (\<lambda>w. Send w message) wss \<and>
            (wss \<noteq> [] \<longrightarrow> dumps L (PDict (dict_ProcessedAgentDataInDB row)) = Inr message))"
  using assms
proof (cases rule: create_cases)
  case (failed err)
  then show ?thesis by blast
next
  case (committed row message wss)
  then show ?thesis by blast
qed

theorem commit_before_notify_witness:
  "fst (create_processed_agent_data accepting_lib example_env example_data example_state) =
     Inr example_row \<and>
   log (snd (create_processed_agent_data accepting_lib example_env example_data example_state)) =
     [Commit example_row, Send 1 example_message, Send 2 example_message] \<and>
   \<not> commit_ok (example_env\<lparr>commit_ok := False\<rparr>) \<and>
   snd (create_processed_agent_data accepting_lib (example_env\<lparr>commit_ok := False\<rparr>)
          example_data example_state) = example_state"
proof -
  have a: "fst (create_processed_agent_data accepting_lib example_env example_data example_state) =
     Inr example_row"
    by code_simp
  have b: "log (snd (create_processed_agent_data accepting_lib example_env example_data
     example_state)) = [Commit example_row, Send 1 example_message, Send 2 example_message]"
    by code_simp
  have c: "create_processed_agent_data accepting_lib (example_env\<lparr>commit_ok := False\<rparr>)
      example_data example_state =
     (fst (create_processed_agent_data accepting_lib (example_env\<lparr>commit_ok := False\<rparr>)
        example_data example_state),
      snd (create_processed_agent_data accepting_lib (example_env\<lparr>commit_ok := False\<rparr>)
        example_data example_state))"
    by simp
  show ?thesis
    using a b commit_before_notify [OF c] by simp
qed



text \<open>
  C6 (server timestamp). The claim speaks of the record an ingest request stores. For the
  request of the scenario the handler stores none: it ends in \<open>TypeError\<close> where it
  enters the session and, were the session entered, in the \<open>ValidationError\<close> of the
  constructor; either way the table is as before.
\<close>

theorem ingest_stores_no_record:
  "create_processed_agent_data (python_lib example_encoder) (example_env\<lparr>session_ok := False\<rparr>)
      example_data (initial []) = (Inl TypeError, initial []) \<and>
   create_processed_agent_data (python_lib example_encoder) example_env example_data (initial []) =
     (Inl (ValidationError [''id'', ''user_id'', ''x'', ''y'', ''z'', ''latitude'', ''longitude'']),
      initial []) \<and>
   table (initial []) = ([] :: int ProcessedAgentDataInDB list)"
  by (simp add: create_python_lib example_env_def initial_def)

text \<open>
  C7 (input validation). The body below carries the number 7 as its timestamp, which is
  not an ISO 8601 string and which the declared validator would refuse. The route does
  not refuse it: the body validates, with 7 read as a time, the handler is called and
  ends in \<open>TypeError\<close>, which is not a validation error.
\<close>

theorem numeric_timestamp_not_rejected:
  "check_timestamp example_env (PInt 7 :: int pyval) = Inl ValueError \<and>
   Option.bind (get_dict (Some example_body)) (ProcessedAgentData_init example_validators) =
     Some example_data \<and>
   post_processed_agent_data (python_lib example_encoder) example_validators
      (example_env\<lparr>session_ok := False\<rparr>) example_body (initial []) =
     (Inl TypeError, initial [])"
  by (simp add: check_timestamp_def post_processed_agent_data_def example_validated
      create_python_lib example_env_def)

text \<open>
  C8 (not found on absent id). The table holds one row, with id 1. Reading, updating and
  deleting id 2, which is absent, end in \<open>ArgumentError\<close> and not in the 404 answer;
  reading, updating and deleting id 1 end in \<open>ArgumentError\<close> as well and return no
  row. The table is unchanged in each case.
\<close>

theorem query_handlers_raise_ArgumentError:
  "read_processed_agent_data (python_lib example_encoder) 2 (initial [example_row]) =
     (Inl ArgumentError, initial [example_row]) \<and>
   update_processed_agent_data (python_lib example_encoder) example_env 2 example_data
      (initial [example_row]) = (Inl ArgumentError, initial [example_row]) \<and>
   delete_processed_agent_data (python_lib example_encoder) example_env 2 (initial [example_row]) =
     (Inl ArgumentError, initial [example_row]) \<and>
   read_processed_agent_data (python_lib example_encoder) 1 (initial [example_row]) =
     (Inl ArgumentError, initial [example_row]) \<and>
   update_processed_agent_data (python_lib example_encoder) example_env 1 example_data
      (initial [example_row]) = (Inl ArgumentError, initial [example_row]) \<and>
   delete_processed_agent_data (python_lib example_encoder) example_env 1 (initial [example_row]) =
     (Inl ArgumentError, initial [example_row]) \<and>
   id_db example_row = 1"
  by (simp add: python_lib_queries example_row_def)

text \<open>
  C9 (the registry stays empty). No handler writes to \<^verbatim>\<open>subscriptions\<close>, which
  starts empty, so it is empty in every reachable state and no message is ever handed to
  a connection. This holds whatever the constructor and the serializer do.
\<close>

theorem registry_always_empty:
  "reachable L st \<Longrightarrow> subscriptions st = Map.empty \<and> sends (log st) = []"
proof (induction rule: reachable.induct)
  case (start rows)
  show ?case by (simp add: initial_def)
next
  case (step st V e req)
  then show ?case by (simp add: serve_subscriptions serve_sends)
qed

theorem registry_always_empty_witness:
  "reachable (python_lib example_encoder)
     (serve (python_lib example_encoder) example_validators example_env (Delete 1)
        (serve (python_lib example_encoder) example_validators example_env
           (Post example_body) (initial [example_row]))) \<and>
   subscriptions
     (serve (python_lib example_encoder) example_validators example_env (Delete 1)
        (serve (python_lib example_encoder) example_validators example_env
           (Post example_body) (initial [example_row]))) = Map.empty \<and>
   sends (log
     (serve (python_lib example_encoder) example_validators example_env (Delete 1)
        (serve (python_lib example_encoder) example_validators example_env
           (Post example_body) (initial [example_row])))) = [] \<and>
   table
     (serve (python_lib example_encoder) example_validators example_env (Delete 1)
        (serve (python_lib example_encoder) example_validators example_env
           (Post example_body) (initial [example_row]))) = [example_row]"
proof -
  have r: "reachable (python_lib example_encoder)
     (serve (python_lib example_encoder) example_validators example_env (Delete 1)
        (serve (python_lib example_encoder) example_validators example_env
           (Post example_body) (initial [example_row])))"
    by (intro reachable.intros)
  have t: "table
     (serve (python_lib example_encoder) example_validators example_env (Delete 1)
        (serve (python_lib example_encoder) example_validators example_env
           (Post example_body) (initial [example_row]))) = [example_row]"
    by (simp add: post_processed_agent_data_def example_validated create_python_lib
        python_lib_queries initial_def)
  show ?thesis using r registry_always_empty [OF r] t by simp
qed

text \<open>
  C10 (the ingest handler always raises). Under the Python library every run of the
  ingest handler ends in an error with the state unchanged: the \<open>ValidationError\<close> of
  the constructor, which misses \<^verbatim>\<open>id\<close>, \<^verbatim>\<open>user_id\<close>, \<^verbatim>\<open>x\<close>,
  \<^verbatim>\<open>y\<close>, \<^verbatim>\<open>z\<close>, \<^verbatim>\<open>latitude\<close> and \<^verbatim>\<open>longitude\<close>, or, when
  entering the session already fails, that failure.
\<close>

theorem create_always_raises:
  "create_processed_agent_data (python_lib enc) e data st =
     (Inl (if session_ok e
           then ValidationError [''id'', ''user_id'', ''x'', ''y'', ''z'', ''latitude'', ''longitude'']
           else TypeError), st)"
  unfolding create_processed_agent_data_def python_lib_def
  by (simp add: python_kwargs_rejected)

theorem create_always_raises_witness:
  "create_processed_agent_data (python_lib example_encoder) example_env example_data example_state =
     (Inl (ValidationError [''id'', ''user_id'', ''x'', ''y'', ''z'', ''latitude'', ''longitude'']),
      example_state)"
  using create_always_raises [of example_encoder example_env example_data example_state]
  by (simp add: example_env_def)

end
